theory Spec2Isabelle
  imports Complex_Main "HOL-Library.Sublist"
begin

section \<open>Array elements: numpy float64 values\<close>

text \<open>
  The vertex coordinates and the colour channels of \<open>apply_gradient_color\<close> are numpy
  float64 values. A value is a finite number, one of the two infinities, or NaN. Finite
  values are carried as reals. The result of an operation is rounded as far as the range
  of the format goes: an exact result of magnitude \<open>2^1024 - 2^970\<close> or more becomes an
  infinity, one above the largest finite double but below that bound becomes the largest
  finite double. The rounding of a result within the finite range to the nearest double is
  not modelled. Every operation on infinities and NaN is. Signed zeros are not told apart.
\<close>

datatype f64 = Fin real | PInf | NInf | NaN

datatype py_error = ValueError | FileNotFoundError | LoadError string

definition DBL_MAX :: real where
  "DBL_MAX = 2 ^ 1024 - 2 ^ 971"

text \<open>
  Round to nearest at the upper end of the format: halfway between the largest finite
  double and \<open>2^1024\<close> lies \<open>2^1024 - 2^970\<close>, from where on the result is an infinity.
\<close>

definition overflow_bound :: real where
  "overflow_bound = 2 ^ 1024 - 2 ^ 970"

definition overflow :: "real \<Rightarrow> f64" where
  "overflow x =
     (if overflow_bound \<le> x then PInf
      else if x \<le> - overflow_bound then NInf
      else Fin (max (- DBL_MAX) (min DBL_MAX x)))"

fun fneg :: "f64 \<Rightarrow> f64" where
  "fneg (Fin a) = Fin (- a)"
| "fneg PInf = NInf"
| "fneg NInf = PInf"
| "fneg NaN = NaN"

fun fadd :: "f64 \<Rightarrow> f64 \<Rightarrow> f64" where
  "fadd NaN _ = NaN"
| "fadd _ NaN = NaN"
| "fadd (Fin a) (Fin b) = overflow (a + b)"
| "fadd PInf NInf = NaN"
| "fadd NInf PInf = NaN"
| "fadd PInf _ = PInf"
| "fadd NInf _ = NInf"
| "fadd (Fin a) b = b"

definition fsub :: "f64 \<Rightarrow> f64 \<Rightarrow> f64" where
  "fsub a b = fadd a (fneg b)"

text \<open>Division follows numpy: a zero divisor gives an infinity or NaN, never an exception.\<close>

fun fdiv :: "f64 \<Rightarrow> f64 \<Rightarrow> f64" where
  "fdiv NaN _ = NaN"
| "fdiv _ NaN = NaN"
| "fdiv (Fin a) (Fin b) =
     (if b = 0 then (if a = 0 then NaN else if 0 < a then PInf else NInf)
      else overflow (a / b))"
| "fdiv (Fin a) _ = Fin 0"
| "fdiv PInf (Fin b) = (if 0 \<le> b then PInf else NInf)"
| "fdiv NInf (Fin b) = (if 0 \<le> b then NInf else PInf)"
| "fdiv _ _ = NaN"

text \<open>The comparisons \<open><\<close> and \<open><=\<close>: false whenever an operand is NaN.\<close>

fun fless :: "f64 \<Rightarrow> f64 \<Rightarrow> bool" where
  "fless NaN _ = False"
| "fless _ NaN = False"
| "fless (Fin a) (Fin b) = (a < b)"
| "fless _ NInf = False"
| "fless PInf _ = False"
| "fless _ _ = True"



text \<open>
  \<open>ndarray.min()\<close> and \<open>ndarray.max()\<close>: NaN propagates, and the reduction of an empty
  array raises ValueError.
\<close>

definition fmin2 :: "f64 \<Rightarrow> f64 \<Rightarrow> f64" where
  "fmin2 a b = (if a = NaN \<or> b = NaN then NaN else if fless b a then b else a)"

definition fmax2 :: "f64 \<Rightarrow> f64 \<Rightarrow> f64" where
  "fmax2 a b = (if a = NaN \<or> b = NaN then NaN else if fless a b then b else a)"

fun amin :: "f64 list \<Rightarrow> py_error + f64" where
  "amin [] = Inl ValueError"
| "amin (x # xs) = Inr (foldl fmin2 x xs)"

fun amax :: "f64 list \<Rightarrow> py_error + f64" where
  "amax [] = Inl ValueError"
| "amax (x # xs) = Inr (foldl fmax2 x xs)"

definition zeros_like :: "f64 list \<Rightarrow> f64 list" where
  "zeros_like a = replicate (length a) (Fin 0)"

definition zeros :: "nat \<Rightarrow> nat \<Rightarrow> f64 list list" where
  "zeros n m = replicate n (replicate m (Fin 0))"

text \<open>
  \<open>a[:, j] = vals\<close> with one value per row, and \<open>a[:, j] = v\<close> with a scalar. The first
  is only used with as many values as rows.
\<close>

definition set_column :: "nat \<Rightarrow> f64 list \<Rightarrow> f64 list list \<Rightarrow> f64 list list" where
  "set_column j vals a = map (\<lambda>(row, v). row[j := v]) (zip a vals)"

definition fill_column :: "nat \<Rightarrow> f64 \<Rightarrow> f64 list list \<Rightarrow> f64 list list" where
  "fill_column j v a = map (\<lambda>row. row[j := v]) a"

section \<open>The mesh recolouring routine\<close>



text \<open>\<open>vertices[:, 1]\<close>\<close>

definition y_values :: "(f64 \<times> f64 \<times> f64) list \<Rightarrow> f64 list" where
  "y_values vs = map (\<lambda>(x, y, z). y) vs"

text \<open>
  The conditional expression of lines 161 to 165: the test \<open>y_values.max() > y_values.min()\<close>
  is evaluated first, then one of the two branches.
\<close>

definition y_normalized :: "f64 list \<Rightarrow> py_error + f64 list" where
  "y_normalized ys =
     (case amax ys of
        Inl e \<Rightarrow> Inl e
      | Inr y_max \<Rightarrow>
          (case amin ys of
             Inl e \<Rightarrow> Inl e
           | Inr y_min \<Rightarrow>
               if fless y_min y_max
               then Inr (map (\<lambda>y. fdiv (fsub y y_min) (fsub y_max y_min)) ys)
               else Inr (zeros_like ys)))"

text \<open>
  Lines 167 to 170: an array of zeros with one row of four channels per vertex, whose
  columns 0, 2 and 3 are then assigned.
\<close>

definition colors :: "(f64 \<times> f64 \<times> f64) list \<Rightarrow> py_error + f64 list list" where
  "colors vs =
     (case y_normalized (y_values vs) of
        Inl e \<Rightarrow> Inl e
      | Inr yn \<Rightarrow>
          Inr (fill_column 3 (Fin 1)
                (set_column 2 (map (fsub (Fin 1)) yn)
                  (set_column 0 yn (zeros (length vs) 4)))))"


section \<open>The chat function\<close>

text \<open>
  One entry of the conversation is a dictionary with the keys \<open>role\<close> and \<open>content\<close>.
\<close>

type_synonym entry = "string \<rightharpoonup> string"

definition entry :: "string \<Rightarrow> string \<Rightarrow> entry" where
  "entry r c = [''role'' \<mapsto> r, ''content'' \<mapsto> c]"

text \<open>
  The two list objects the first lines of \<open>chat_llama3_8b\<close> work on: the caller's
  \<open>history\<close> and the local \<open>conversation\<close>.
\<close>

record chat_state =
  history :: "(string \<times> string) list"
  conversation :: "entry list"

text \<open>
  The loop of lines 209 to 215. A Python \<open>for\<close> over a list reads the list object by
  index at every step, so the loop is written over the state with an index.
\<close>

function conversation_loop :: "nat \<Rightarrow> chat_state \<Rightarrow> chat_state" where
  "conversation_loop i s =
     (if i < length (history s)
      then conversation_loop (Suc i)
             (s\<lparr>conversation := conversation s @
                  [entry ''user'' (fst (history s ! i)),
                   entry ''assistant'' (snd (history s ! i))]\<rparr>)
      else s)"
  by pat_completeness auto
termination
  by (relation "measure (\<lambda>(i, s). length (history s) - i)") auto

declare conversation_loop.simps [simp del]

text \<open>
  The values of the keyword dictionary handed to \<open>model.generate\<close>: the tensor of input
  ids (of a type the tokenizer decides), the streamer object, integers, booleans, floats
  and the list of terminator ids.
\<close>

datatype 't kwarg =
    Tensor 't
  | StreamerObject
  | IntValue int
  | BoolValue bool
  | FloatValue f64
  | IntList "int list"

text \<open>Python's \<open>==\<close> on numbers: NaN equals nothing.\<close>

definition feq :: "f64 \<Rightarrow> f64 \<Rightarrow> bool" where
  "feq a b = (a \<noteq> NaN \<and> b \<noteq> NaN \<and> a = b)"

definition generate_kwargs :: "'t \<Rightarrow> int \<Rightarrow> f64 \<Rightarrow> int list \<Rightarrow> (string \<rightharpoonup> 't kwarg)" where
  "generate_kwargs input_ids max_new_tokens temperature terminators =
     (let kwargs = [''input_ids'' \<mapsto> Tensor input_ids,
                    ''streamer'' \<mapsto> StreamerObject,
                    ''max_new_tokens'' \<mapsto> IntValue max_new_tokens,
                    ''do_sample'' \<mapsto> BoolValue True,
                    ''temperature'' \<mapsto> FloatValue temperature,
                    ''eos_token_id'' \<mapsto> IntList terminators]
      in if feq temperature (Fin 0) then kwargs(''do_sample'' \<mapsto> BoolValue False) else kwargs)"

text \<open>
  What one step of \<open>for text in streamer\<close> meets: a chunk of text, or a raise. The end of
  the event list is the end of the stream (StopIteration). A raised object is an instance
  of \<open>Exception\<close> (such as \<open>queue.Empty\<close>, which the streamer raises after its timeout)
  or lies outside that class (KeyboardInterrupt, SystemExit, GeneratorExit).
\<close>

datatype raised = ExceptionInstance string | NotAnException string

datatype stream_event = Text string | Raise raised

datatype outcome = Returned | Propagated raised

definition error_text :: string where
  "error_text = CHR 0x0A # CHR 0x0A # ''[Error during generation. Please try again.]''"

text \<open>
  The body of the \<open>try\<close>, lines 252 to 254: the values yielded, the list \<open>outputs\<close> when
  the body is left, and the exception that left it, if any.
\<close>

fun stream_loop ::
  "string list \<Rightarrow> stream_event list \<Rightarrow> string list \<times> string list \<times> raised option" where
  "stream_loop outputs [] = ([], outputs, None)"
| "stream_loop outputs (Text text # rest) =
     (case stream_loop (outputs @ [text]) rest of
        (ys, out, ex) \<Rightarrow> (concat (outputs @ [text]) # ys, out, ex))"
| "stream_loop outputs (Raise e # rest) = ([], outputs, Some e)"

text \<open>
  Lines 250 to 261: the \<open>try\<close> with its handler \<open>except Exception\<close>, which takes instances
  of \<open>Exception\<close> only; anything else leaves the generator.
\<close>

definition stream_outputs :: "stream_event list \<Rightarrow> string list \<times> outcome" where
  "stream_outputs events =
     (case stream_loop [] events of
        (ys, out, None) \<Rightarrow> (ys, Returned)
      | (ys, out, Some (ExceptionInstance msg)) \<Rightarrow> (ys @ [concat out @ error_text], Returned)
      | (ys, out, Some (NotAnException msg)) \<Rightarrow> (ys, Propagated (NotAnException msg)))"

text \<open>
  What a call of \<open>chat_llama3_8b\<close> leaves behind: the two lists, the argument of the
  chat-template call, the keyword dictionary the worker thread was started with, the values
  the generator yielded and how it ended.
\<close>

record 't chat_run =
  final_state :: chat_state
  template_argument :: "entry list"
  thread_kwargs :: "string \<rightharpoonup> 't kwarg"
  yielded :: "string list"
  ended :: outcome

text \<open>
  \<open>chat_llama3_8b\<close>. The tokenizer's \<open>apply_chat_template\<close>, the global \<open>terminators\<close>
  and the generation (the events the streamer delivers for a keyword dictionary) come from
  outside and are parameters.
\<close>

definition chat_llama3_8b ::
  "(entry list \<Rightarrow> 't) \<Rightarrow> int list \<Rightarrow> ((string \<rightharpoonup> 't kwarg) \<Rightarrow> stream_event list) \<Rightarrow>
   string \<Rightarrow> (string \<times> string) list \<Rightarrow> f64 \<Rightarrow> int \<Rightarrow> 't chat_run" where
  "chat_llama3_8b apply_chat_template terminators generate message hist temperature max_new_tokens =
     (let s1 = conversation_loop 0 \<lparr>history = hist, conversation = []\<rparr>;
          s2 = s1\<lparr>conversation := conversation s1 @ [entry ''user'' message]\<rparr>;
          input_ids = apply_chat_template (conversation s2);
          kwargs = generate_kwargs input_ids max_new_tokens temperature terminators;
          (ys, how) = stream_outputs (generate kwargs)
      in \<lparr>final_state = s2, template_argument = conversation s2, thread_kwargs = kwargs,
          yielded = ys, ended = how\<rparr>)"

section \<open>Facts about the number model\<close>

lemma fless_trans: "fless a b \<Longrightarrow> fless b c \<Longrightarrow> fless a c"
  by (cases a; cases b; cases c) auto

lemma fless_irrefl: "\<not> fless a a"
  by (cases a) auto

lemma fless_total: "a \<noteq> NaN \<Longrightarrow> b \<noteq> NaN \<Longrightarrow> a \<noteq> b \<Longrightarrow> fless a b \<or> fless b a"
  by (cases a; cases b) auto

lemma fless_asym: "fless a b \<Longrightarrow> \<not> fless b a"
  by (cases a; cases b) auto

lemma fmin2_NaN_left: "foldl fmin2 NaN xs = NaN"
  by (induction xs) (simp_all add: fmin2_def)

lemma fmax2_NaN_left: "foldl fmax2 NaN xs = NaN"
  by (induction xs) (simp_all add: fmax2_def)

lemma foldl_fmin2_NaN: "NaN \<in> set (x # xs) \<Longrightarrow> foldl fmin2 x xs = NaN"
  by (induction xs arbitrary: x) (auto simp: fmin2_def fmin2_NaN_left)

lemma foldl_fmax2_NaN: "NaN \<in> set (x # xs) \<Longrightarrow> foldl fmax2 x xs = NaN"
  by (induction xs arbitrary: x) (auto simp: fmax2_def fmax2_NaN_left)

lemma fless_le_trans: "a \<noteq> NaN \<Longrightarrow> b \<noteq> NaN \<Longrightarrow> c \<noteq> NaN \<Longrightarrow> \<not> fless b a \<Longrightarrow> \<not> fless c b \<Longrightarrow> \<not> fless c a"
  by (cases a; cases b; cases c) auto

lemma fmin2_cases: "a \<noteq> NaN \<Longrightarrow> b \<noteq> NaN \<Longrightarrow>
  (fmin2 a b = a \<or> fmin2 a b = b) \<and> \<not> fless a (fmin2 a b) \<and> \<not> fless b (fmin2 a b)"
  by (auto simp: fmin2_def fless_irrefl dest: fless_asym)

lemma fmax2_cases: "a \<noteq> NaN \<Longrightarrow> b \<noteq> NaN \<Longrightarrow>
  (fmax2 a b = a \<or> fmax2 a b = b) \<and> \<not> fless (fmax2 a b) a \<and> \<not> fless (fmax2 a b) b"
  by (auto simp: fmax2_def fless_irrefl dest: fless_asym)

lemma foldl_fmin2_least:
  "NaN \<notin> set (x # xs) \<Longrightarrow>
   foldl fmin2 x xs \<in> set (x # xs) \<and> (\<forall>y \<in> set (x # xs). \<not> fless y (foldl fmin2 x xs))"
proof (induction xs arbitrary: x)
  case Nil
  then show ?case by (simp add: fless_irrefl)
next
  case (Cons z zs)
  let ?w = "fmin2 x z"
  let ?m = "foldl fmin2 ?w zs"
  from Cons.prems have nn: "x \<noteq> NaN" "z \<noteq> NaN" "NaN \<notin> set zs" by auto
  from fmin2_cases[OF nn(1,2)]
  have w: "?w = x \<or> ?w = z" and wx: "\<not> fless x ?w" and wz: "\<not> fless z ?w" by auto
  from w nn have wn: "?w \<noteq> NaN" by auto
  with nn have "NaN \<notin> set (?w # zs)" by auto
  from Cons.IH[OF this]
  have mem: "?m \<in> set (?w # zs)"
    and low: "\<forall>y \<in> set (?w # zs). \<not> fless y ?m" by auto
  from mem wn nn have mn: "?m \<noteq> NaN" by auto
  have lw: "\<not> fless ?w ?m" using low by simp
  have lx: "\<not> fless x ?m" using fless_le_trans[OF mn wn nn(1) lw wx] .
  have lz: "\<not> fless z ?m" using fless_le_trans[OF mn wn nn(2) lw wz] .
  from mem w have "?m \<in> set (x # z # zs)" by auto
  with lx lz low show ?case by simp
qed

lemma foldl_fmax2_greatest:
  "NaN \<notin> set (x # xs) \<Longrightarrow>
   foldl fmax2 x xs \<in> set (x # xs) \<and> (\<forall>y \<in> set (x # xs). \<not> fless (foldl fmax2 x xs) y)"
proof (induction xs arbitrary: x)
  case Nil
  then show ?case by (simp add: fless_irrefl)
next
  case (Cons z zs)
  let ?w = "fmax2 x z"
  let ?m = "foldl fmax2 ?w zs"
  from Cons.prems have nn: "x \<noteq> NaN" "z \<noteq> NaN" "NaN \<notin> set zs" by auto
  from fmax2_cases[OF nn(1,2)]
  have w: "?w = x \<or> ?w = z" and wx: "\<not> fless ?w x" and wz: "\<not> fless ?w z" by auto
  from w nn have wn: "?w \<noteq> NaN" by auto
  with nn have "NaN \<notin> set (?w # zs)" by auto
  from Cons.IH[OF this]
  have mem: "?m \<in> set (?w # zs)"
    and low: "\<forall>y \<in> set (?w # zs). \<not> fless ?m y" by auto
  from mem wn nn have mn: "?m \<noteq> NaN" by auto
  have lw: "\<not> fless ?m ?w" using low by simp
  have lx: "\<not> fless ?m x" using fless_le_trans[OF nn(1) wn mn wx lw] .
  have lz: "\<not> fless ?m z" using fless_le_trans[OF nn(2) wn mn wz lw] .
  from mem w have "?m \<in> set (x # z # zs)" by auto
  with lx lz low show ?case by simp
qed

lemma amin_amax_distinct:
  assumes "amin ys = Inr y_min" and "amax ys = Inr y_max" and "y_min \<noteq> y_max"
  shows "fless y_min y_max"
proof -
  from assms(1) obtain x xs where ys: "ys = x # xs" by (cases ys) auto
  with assms have mn: "y_min = foldl fmin2 x xs" and mx: "y_max = foldl fmax2 x xs" by auto
  show ?thesis
  proof (cases "NaN \<in> set (x # xs)")
    case True
    with mn mx assms(3) show ?thesis
      using foldl_fmin2_NaN[OF True] foldl_fmax2_NaN[OF True] by simp
  next
    case False
    from foldl_fmin2_least[OF False] mn
    have a: "y_min \<in> set (x # xs)" "\<forall>y \<in> set (x # xs). \<not> fless y y_min" by auto
    from foldl_fmax2_greatest[OF False] mx
    have b: "y_max \<in> set (x # xs)" "\<forall>y \<in> set (x # xs). \<not> fless y_max y" by auto
    from a(1) b(1) False have "y_min \<noteq> NaN" "y_max \<noteq> NaN" by auto
    moreover from a(2) b(1) have "\<not> fless y_max y_min" by blast
    ultimately show ?thesis using fless_total assms(3) by blast
  qed
qed

lemma DBL_MAX_ge_1: "1 \<le> DBL_MAX"
  unfolding DBL_MAX_def by simp


lemma DBL_MAX_pos: "0 \<le> DBL_MAX"
  using DBL_MAX_ge_1 by simp

lemma DBL_MAX_less_bound: "DBL_MAX < overflow_bound"
  unfolding DBL_MAX_def overflow_bound_def by simp

lemma overflow_Fin: "- DBL_MAX \<le> x \<Longrightarrow> x \<le> DBL_MAX \<Longrightarrow> overflow x = Fin x"
  using DBL_MAX_less_bound by (simp add: overflow_def)



lemma overflow_0: "overflow 0 = Fin 0"
  using DBL_MAX_pos by (simp add: overflow_Fin)

lemma overflow_1: "overflow 1 = Fin 1"
  using DBL_MAX_ge_1 by (simp add: overflow_Fin)


lemma fsub_Fin_0: "fsub (Fin x) (Fin 0) = overflow x"
  by (simp add: fsub_def)





section \<open>Facts about the recolouring\<close>

lemma length_set_column: "length vals = length a \<Longrightarrow> length (set_column j vals a) = length a"
  by (simp add: set_column_def)

lemma colors_rows:
  "fill_column 3 (Fin 1) (set_column 2 (map (fsub (Fin 1)) yn) (set_column 0 yn (zeros (length yn) 4)))
   = map (\<lambda>r. [r, Fin 0, fsub (Fin 1) r, Fin 1]) yn"
  by (rule nth_equalityI) (simp_all add: fill_column_def set_column_def zeros_def numeral_eq_Suc)

lemma y_normalized_length: "y_normalized ys = Inr yn \<Longrightarrow> length yn = length ys"
  by (auto simp: y_normalized_def zeros_like_def split: sum.splits if_splits)

lemma colors_eq:
  "y_normalized (y_values vs) = Inr yn \<Longrightarrow>
   colors vs = Inr (map (\<lambda>r. [r, Fin 0, fsub (Fin 1) r, Fin 1]) yn)"
  using y_normalized_length[of "y_values vs" yn] colors_rows[of yn]
  by (simp add: colors_def y_values_def)


lemma fmin2_same: "fmin2 c c = c"
  by (simp add: fmin2_def fless_irrefl)

lemma fmax2_same: "fmax2 c c = c"
  by (simp add: fmax2_def fless_irrefl)

lemma foldl_fmin2_same: "foldl fmin2 c (replicate n c) = c"
  by (induction n) (simp_all add: fmin2_same)

lemma foldl_fmax2_same: "foldl fmax2 c (replicate n c) = c"
  by (induction n) (simp_all add: fmax2_same)

lemma y_normalized_replicate:
  "y_normalized (replicate (Suc n) c) = Inr (replicate (Suc n) (Fin 0))"
  by (simp add: y_normalized_def foldl_fmin2_same foldl_fmax2_same fless_irrefl zeros_like_def)

lemma same_list_replicate: "\<forall>y \<in> set ys. y = c \<Longrightarrow> ys = replicate (length ys) c"
  by (induction ys) auto










text \<open>
  Just below the bound nothing overflows: for the Y values \<open>2^1024 - 2^971\<close> (the largest
  finite double) and \<open>-2^960\<close> the difference is rounded to the largest finite double, and
  the colours are those of an ordinary mesh of two heights.
\<close>

lemma y_normalized_near_overflow:
  "y_normalized [Fin (2 ^ 1024 - 2 ^ 971), Fin (- (2 ^ 960))] = Inr [Fin 1, Fin 0]"
  by (simp add: y_normalized_def fmin2_def fmax2_def fsub_def overflow_def overflow_bound_def
        DBL_MAX_def)

lemma colors_near_overflow:
  "colors [(Fin 0, Fin (2 ^ 1024 - 2 ^ 971), Fin 0), (Fin 0, Fin (- (2 ^ 960)), Fin 0)] =
     Inr [[Fin 1, Fin 0, Fin 0, Fin 1], [Fin 0, Fin 0, Fin 1, Fin 1]]"
proof -
  let ?vs = "[(Fin 0, Fin (2 ^ 1024 - 2 ^ 971), Fin 0), (Fin 0, Fin (- (2 ^ 960)), Fin 0)]"
  have ys: "y_values ?vs = [Fin (2 ^ 1024 - 2 ^ 971), Fin (- (2 ^ 960))]"
    by (simp add: y_values_def)
  show ?thesis
    using colors_eq[of ?vs "[Fin 1, Fin 0]"] y_normalized_near_overflow
    unfolding ys by (simp add: fsub_def overflow_1 overflow_0)
qed

section \<open>Facts about the chat function\<close>

lemma conversation_loop_step:
  "i < length (history s) \<Longrightarrow>
   conversation_loop i s =
     conversation_loop (Suc i)
       (s\<lparr>conversation := conversation s @
            [entry ''user'' (fst (history s ! i)), entry ''assistant'' (snd (history s ! i))]\<rparr>)"
  by (subst conversation_loop.simps) simp

lemma conversation_loop_stop: "\<not> i < length (history s) \<Longrightarrow> conversation_loop i s = s"
  by (subst conversation_loop.simps) simp

lemma conversation_loop_history: "history (conversation_loop i s) = history s"
proof (induction i s rule: conversation_loop.induct)
  case (1 i s)
  show ?case
  proof (cases "i < length (history s)")
    case True
    from 1[OF True] show ?thesis unfolding conversation_loop_step[OF True] by simp
  next
    case False
    then show ?thesis by (simp add: conversation_loop_stop)
  qed
qed

lemma conversation_loop_conversation:
  "conversation (conversation_loop i s) =
     conversation s @
     concat (map (\<lambda>(u, a). [entry ''user'' u, entry ''assistant'' a]) (drop i (history s)))"
proof (induction i s rule: conversation_loop.induct)
  case (1 i s)
  show ?case
  proof (cases "i < length (history s)")
    case True
    then have d: "drop i (history s) = history s ! i # drop (Suc i) (history s)"
      by (simp add: Cons_nth_drop_Suc)
    from 1[OF True] show ?thesis unfolding conversation_loop_step[OF True] d
      by (simp add: case_prod_beta)
  next
    case False
    then show ?thesis by (simp add: conversation_loop_stop)
  qed
qed

lemma roles_alternate:
  "i < length (concat (map (\<lambda>(u, a). [entry ''user'' u, entry ''assistant'' a]) h) @ [entry ''user'' m]) \<Longrightarrow>
   ((concat (map (\<lambda>(u, a). [entry ''user'' u, entry ''assistant'' a]) h) @ [entry ''user'' m]) ! i) ''role''
     = Some (if even i then ''user'' else ''assistant'')"
proof (induction h arbitrary: i)
  case Nil
  then show ?case by (simp add: entry_def)
next
  case (Cons p h)
  obtain u a where p: "p = (u, a)" by (cases p)
  show ?case
  proof (cases i)
    case 0
    then show ?thesis by (simp add: p entry_def)
  next
    case (Suc k)
    show ?thesis
    proof (cases k)
      case 0
      with Suc show ?thesis by (simp add: p entry_def)
    next
      case (Suc l)
      with \<open>i = Suc k\<close> Cons.prems have "l < length (concat (map (\<lambda>(u, a). [entry ''user'' u, entry ''assistant'' a]) h) @ [entry ''user'' m])"
        by (simp add: p)
      from Cons.IH[OF this] Suc \<open>i = Suc k\<close> show ?thesis by (simp add: p)
    qed
  qed
qed

lemma length_pairs:
  "length (concat (map (\<lambda>(u, a). [entry ''user'' u, entry ''assistant'' a]) h)) = 2 * length h"
  by (induction h) (auto)

lemma stream_loop_texts:
  "stream_loop outputs (map Text cs) = (ys, out, ex) \<Longrightarrow>
   length ys = length cs \<and> out = outputs @ cs \<and> ex = None \<and>
   (\<forall>k < length cs. ys ! k = concat (outputs @ take (Suc k) cs))"
proof (induction cs arbitrary: outputs ys out ex)
  case Nil
  then show ?case by simp
next
  case (Cons c cs)
  obtain ys' out' ex' where r: "stream_loop (outputs @ [c]) (map Text cs) = (ys', out', ex')"
    by (cases "stream_loop (outputs @ [c]) (map Text cs)") auto
  from Cons.IH[OF r] have ih: "length ys' = length cs" "out' = outputs @ [c] @ cs" "ex' = None"
    "\<forall>k < length cs. ys' ! k = concat ((outputs @ [c]) @ take (Suc k) cs)" by auto
  from Cons.prems r have ys: "ys = concat (outputs @ [c]) # ys'" and o: "out = out'" and e: "ex = ex'"
    by auto
  have "ys ! k = concat (outputs @ take (Suc k) (c # cs))" if "k < length (c # cs)" for k
  proof (cases k)
    case 0
    then show ?thesis by (simp add: ys)
  next
    case (Suc l)
    with that ih(4) show ?thesis by (simp add: ys)
  qed
  with ih ys o e show ?case by simp
qed

lemma stream_loop_raise:
  "stream_loop outputs (map Text cs @ Raise e # rest) =
     (fst (stream_loop outputs (map Text cs)), outputs @ cs, Some e)"
proof (induction cs arbitrary: outputs)
  case Nil
  then show ?case by simp
next
  case (Cons c cs)
  show ?case by (simp add: Cons.IH split: prod.splits)
qed

lemma prefix_concat_take: "i \<le> j \<Longrightarrow> prefix (concat (take i xs)) (concat (take j xs))"
proof -
  assume "i \<le> j"
  then have "take j xs = take i xs @ take (j - i) (drop i xs)"
    by (metis le_add_diff_inverse take_add)
  then have "concat (take j xs) = concat (take i xs) @ concat (take (j - i) (drop i xs))"
    by (metis concat_append)
  then show ?thesis by (simp add: prefix_def)
qed

lemma chat_fields:
  "template_argument (chat_llama3_8b tpl terms generate message hist temperature max_new_tokens) =
     concat (map (\<lambda>(u, a). [entry ''user'' u, entry ''assistant'' a]) hist) @ [entry ''user'' message]"
  "thread_kwargs (chat_llama3_8b tpl terms generate message hist temperature max_new_tokens) =
     generate_kwargs
       (tpl (concat (map (\<lambda>(u, a). [entry ''user'' u, entry ''assistant'' a]) hist) @ [entry ''user'' message]))
       max_new_tokens temperature terms"
  "history (final_state (chat_llama3_8b tpl terms generate message hist temperature max_new_tokens)) = hist"
  "(yielded (chat_llama3_8b tpl terms generate message hist temperature max_new_tokens),
    ended (chat_llama3_8b tpl terms generate message hist temperature max_new_tokens)) =
     stream_outputs (generate (thread_kwargs (chat_llama3_8b tpl terms generate message hist temperature max_new_tokens)))"
  by (simp_all add: chat_llama3_8b_def Let_def conversation_loop_conversation
        conversation_loop_history split: prod.splits)

section \<open>The recolouring: claims\<close>




text \<open>
  Claim C7. When all vertices of a mesh with at least one vertex share one Y value, the
  normalisation takes the array of zeros (the quotient is never formed) and every vertex
  gets the colour (0, 0, 1, 1). The shared value may be any float64, NaN and the
  infinities included.
\<close>

theorem same_y_pure_blue:
  assumes "vs \<noteq> []" and "\<forall>y \<in> set (y_values vs). y = c"
  shows "y_normalized (y_values vs) = Inr (zeros_like (y_values vs)) \<and>
         colors vs = Inr (replicate (length vs) [Fin 0, Fin 0, Fin 1, Fin 1])"
proof -
  from assms(1) obtain n where n: "length vs = Suc n" by (cases vs) auto
  from same_list_replicate[OF assms(2)] n
  have ys: "y_values vs = replicate (Suc n) c" by (simp add: y_values_def)
  have yn: "y_normalized (y_values vs) = Inr (replicate (Suc n) (Fin 0))"
    unfolding ys by (rule y_normalized_replicate)
  have "colors vs = Inr (map (\<lambda>r. [r, Fin 0, fsub (Fin 1) r, Fin 1]) (replicate (Suc n) (Fin 0)))"
    using colors_eq[OF yn] .
  then have "colors vs = Inr (replicate (length vs) [Fin 0, Fin 0, Fin 1, Fin 1])"
    using n by (simp add: fsub_def overflow_1)
  with yn ys show ?thesis by (simp add: zeros_like_def)
qed

text \<open>Two vertices at Y = 5, and a single vertex whose Y is NaN.\<close>

theorem same_y_pure_blue_witness:
  "[(Fin 0, Fin 5, Fin 0), (Fin 1, Fin 5, Fin 2)] \<noteq> [] \<and>
   y_normalized (y_values [(Fin 0, Fin 5, Fin 0), (Fin 1, Fin 5, Fin 2)]) = Inr [Fin 0, Fin 0] \<and>
   colors [(Fin 0, Fin 5, Fin 0), (Fin 1, Fin 5, Fin 2)] =
     Inr [[Fin 0, Fin 0, Fin 1, Fin 1], [Fin 0, Fin 0, Fin 1, Fin 1]] \<and>
   colors [(Fin 3, NaN, Fin 4)] = Inr [[Fin 0, Fin 0, Fin 1, Fin 1]]"
proof -
  have h: "\<forall>y \<in> set (y_values [(Fin 0, Fin 5, Fin 0), (Fin 1, Fin 5, Fin 2)]). y = Fin 5"
    by (simp add: y_values_def)
  have k: "\<forall>y \<in> set (y_values [(Fin 3, NaN, Fin 4)]). y = NaN"
    by (simp add: y_values_def)
  from same_y_pure_blue[of "[(Fin 0, Fin 5, Fin 0), (Fin 1, Fin 5, Fin 2)]" "Fin 5", OF _ h]
       same_y_pure_blue[of "[(Fin 3, NaN, Fin 4)]" NaN, OF _ k]
  show ?thesis by (simp add: zeros_like_def y_values_def)
qed




section \<open>The chat function: claims\<close>

text \<open>
  Claim C2. If the streamer delivers the chunks \<open>chunks\<close> and then raises an exception (an
  instance of \<open>Exception\<close>, the class the handler names), the generator ends normally:
  after one value per chunk it yields exactly one more value, the concatenation of all chunks
  received followed by the error text.
\<close>

theorem chat_error_is_caught:
  assumes "generate (thread_kwargs (chat_llama3_8b tpl terms generate message hist temperature max_new_tokens))
             = map Text chunks @ Raise (ExceptionInstance msg) # rest"
  shows "ended (chat_llama3_8b tpl terms generate message hist temperature max_new_tokens) = Returned \<and>
         length (yielded (chat_llama3_8b tpl terms generate message hist temperature max_new_tokens))
           = Suc (length chunks) \<and>
         (\<forall>k < length chunks.
            yielded (chat_llama3_8b tpl terms generate message hist temperature max_new_tokens) ! k
              = concat (take (Suc k) chunks)) \<and>
         yielded (chat_llama3_8b tpl terms generate message hist temperature max_new_tokens) ! length chunks
           = concat chunks @ CHR 0x0A # CHR 0x0A # ''[Error during generation. Please try again.]''"
proof -
  let ?run = "chat_llama3_8b tpl terms generate message hist temperature max_new_tokens"
  obtain ys out ex where t: "stream_loop [] (map Text chunks) = (ys, out, ex)"
    by (cases "stream_loop [] (map Text chunks)") auto
  from stream_loop_texts[OF t] have ys: "length ys = length chunks"
    "\<forall>k < length chunks. ys ! k = concat (take (Suc k) chunks)" by auto
  have "stream_loop [] (map Text chunks @ Raise (ExceptionInstance msg) # rest)
          = (ys, chunks, Some (ExceptionInstance msg))"
    using stream_loop_raise[of "[]" chunks "ExceptionInstance msg" rest] t by simp
  then have "stream_outputs (generate (thread_kwargs ?run)) = (ys @ [concat chunks @ error_text], Returned)"
    unfolding assms by (simp add: stream_outputs_def)
  with chat_fields(4)[of tpl terms generate message hist temperature max_new_tokens]
  have y: "yielded ?run = ys @ [concat chunks @ error_text]" and e: "ended ?run = Returned"
    by simp_all
  show ?thesis unfolding y e using ys by (simp add: nth_append error_text_def)
qed

text \<open>Two chunks, then the timeout of the streamer.\<close>

theorem chat_error_is_caught_witness:
  "ended (chat_llama3_8b length [128001, 128009]
            (\<lambda>kwargs. [Text ''v 1'', Text '' 2'', Raise (ExceptionInstance ''Empty''), Text '' 3''])
            ''a cube'' [(''hi'', ''hello'')] (Fin 0) 4096) = Returned \<and>
   length (yielded (chat_llama3_8b length [128001, 128009]
            (\<lambda>kwargs. [Text ''v 1'', Text '' 2'', Raise (ExceptionInstance ''Empty''), Text '' 3''])
            ''a cube'' [(''hi'', ''hello'')] (Fin 0) 4096)) = 3 \<and>
   yielded (chat_llama3_8b length [128001, 128009]
            (\<lambda>kwargs. [Text ''v 1'', Text '' 2'', Raise (ExceptionInstance ''Empty''), Text '' 3''])
            ''a cube'' [(''hi'', ''hello'')] (Fin 0) 4096) ! 0 = ''v 1'' \<and>
   yielded (chat_llama3_8b length [128001, 128009]
            (\<lambda>kwargs. [Text ''v 1'', Text '' 2'', Raise (ExceptionInstance ''Empty''), Text '' 3''])
            ''a cube'' [(''hi'', ''hello'')] (Fin 0) 4096) ! 1 = ''v 1 2'' \<and>
   yielded (chat_llama3_8b length [128001, 128009]
            (\<lambda>kwargs. [Text ''v 1'', Text '' 2'', Raise (ExceptionInstance ''Empty''), Text '' 3''])
            ''a cube'' [(''hi'', ''hello'')] (Fin 0) 4096) ! 2
     = ''v 1 2'' @ CHR 0x0A # CHR 0x0A # ''[Error during generation. Please try again.]''"
proof -
  let ?g = "\<lambda>kwargs :: string \<rightharpoonup> nat kwarg.
              [Text ''v 1'', Text '' 2'', Raise (ExceptionInstance ''Empty''), Text '' 3'']"
  let ?run = "chat_llama3_8b length [128001, 128009] ?g ''a cube'' [(''hi'', ''hello'')] (Fin 0) 4096"
  have h: "?g (thread_kwargs ?run) =
             map Text [''v 1'', '' 2''] @ Raise (ExceptionInstance ''Empty'') # [Text '' 3'']"
    by simp
  note c = chat_error_is_caught[of ?g length "[128001, 128009]" "''a cube''" "[(''hi'', ''hello'')]" "Fin 0" 4096
              "[''v 1'', '' 2'']" "''Empty''" "[Text '' 3'']", OF h]
  from c have e: "ended ?run = Returned" by (rule conjunct1)
  from c have "length (yielded ?run) = Suc (length [''v 1'', '' 2''])" by blast
  then have l: "length (yielded ?run) = 3" by simp
  from c have k: "\<forall>k < length [''v 1'', '' 2''].
      yielded ?run ! k = concat (take (Suc k) [''v 1'', '' 2''])" by blast
  from c have "yielded ?run ! length [''v 1'', '' 2''] =
      concat [''v 1'', '' 2''] @ CHR 0x0A # CHR 0x0A # ''[Error during generation. Please try again.]''"
    by blast
  then have t: "yielded ?run ! 2 =
      ''v 1 2'' @ CHR 0x0A # CHR 0x0A # ''[Error during generation. Please try again.]''"
    by (simp add: numeral_2_eq_2)
  from k[rule_format, of 0] have y0: "yielded ?run ! 0 = ''v 1''" by simp
  from k[rule_format, of 1] have y1: "yielded ?run ! 1 = ''v 1 2''" by simp
  from e l y0 y1 t show ?thesis by (intro conjI)
qed

text \<open>
  Claim C3. In a run without an error the generator yields one value per chunk; the value
  number \<open>k\<close> (counted from one) is the concatenation of the first \<open>k\<close> chunks; every
  yielded value is a prefix of each later one; and the last value is the concatenation of
  all chunks.
\<close>

theorem chat_yields_running_concatenation:
  assumes "generate (thread_kwargs (chat_llama3_8b tpl terms generate message hist temperature max_new_tokens))
             = map Text chunks"
  shows "ended (chat_llama3_8b tpl terms generate message hist temperature max_new_tokens) = Returned \<and>
         length (yielded (chat_llama3_8b tpl terms generate message hist temperature max_new_tokens))
           = length chunks \<and>
         (\<forall>k < length chunks.
            yielded (chat_llama3_8b tpl terms generate message hist temperature max_new_tokens) ! k
              = concat (take (Suc k) chunks)) \<and>
         (\<forall>i j. i \<le> j \<and> j < length chunks \<longrightarrow>
            prefix (yielded (chat_llama3_8b tpl terms generate message hist temperature max_new_tokens) ! i)
                   (yielded (chat_llama3_8b tpl terms generate message hist temperature max_new_tokens) ! j)) \<and>
         (chunks \<noteq> [] \<longrightarrow>
            last (yielded (chat_llama3_8b tpl terms generate message hist temperature max_new_tokens))
              = concat chunks)"
proof -
  let ?run = "chat_llama3_8b tpl terms generate message hist temperature max_new_tokens"
  obtain ys out ex where t: "stream_loop [] (map Text chunks) = (ys, out, ex)"
    by (cases "stream_loop [] (map Text chunks)") auto
  from stream_loop_texts[OF t] have ys: "length ys = length chunks" "ex = None"
    "\<forall>k < length chunks. ys ! k = concat (take (Suc k) chunks)" by auto
  have "stream_outputs (generate (thread_kwargs ?run)) = (ys, Returned)"
    unfolding assms using t ys(2) by (simp add: stream_outputs_def)
  with chat_fields(4)[of tpl terms generate message hist temperature max_new_tokens]
  have y: "yielded ?run = ys" and e: "ended ?run = Returned" by simp_all
  have pre: "\<forall>i j. i \<le> j \<and> j < length chunks \<longrightarrow> prefix (ys ! i) (ys ! j)"
  proof (intro allI impI)
    fix i j assume h: "i \<le> j \<and> j < length chunks"
    then have "ys ! i = concat (take (Suc i) chunks)" "ys ! j = concat (take (Suc j) chunks)"
      using ys(3) by auto
    with h show "prefix (ys ! i) (ys ! j)" by (simp add: prefix_concat_take)
  qed
  have lst: "chunks \<noteq> [] \<longrightarrow> last ys = concat chunks"
  proof
    assume ne: "chunks \<noteq> []"
    with ys(1) have "ys \<noteq> []" by auto
    then have "last ys = ys ! (length chunks - 1)" using ys(1) by (simp add: last_conv_nth)
    also have "\<dots> = concat (take (Suc (length chunks - 1)) chunks)" using ys(3) ne by simp
    also have "\<dots> = concat chunks" using ne by simp
    finally show "last ys = concat chunks" .
  qed
  show ?thesis unfolding y e
  proof (intro conjI)
    show "Returned = Returned" by (rule refl)
    show "length ys = length chunks" by (rule ys(1))
    show "\<forall>k < length chunks. ys ! k = concat (take (Suc k) chunks)" by (rule ys(3))
    show "\<forall>i j. i \<le> j \<and> j < length chunks \<longrightarrow> prefix (ys ! i) (ys ! j)" by (rule pre)
    show "chunks \<noteq> [] \<longrightarrow> last ys = concat chunks" by (rule lst)
  qed
qed

text \<open>Three chunks and the end of the stream.\<close>

theorem chat_yields_running_concatenation_witness:
  "ended (chat_llama3_8b length [128001, 128009]
            (\<lambda>kwargs. [Text ''v 1'', Text '' 2'', Text '' 3''])
            ''a cube'' [(''hi'', ''hello'')] (Fin 0) 4096) = Returned \<and>
   length (yielded (chat_llama3_8b length [128001, 128009]
            (\<lambda>kwargs. [Text ''v 1'', Text '' 2'', Text '' 3''])
            ''a cube'' [(''hi'', ''hello'')] (Fin 0) 4096)) = 3 \<and>
   yielded (chat_llama3_8b length [128001, 128009]
            (\<lambda>kwargs. [Text ''v 1'', Text '' 2'', Text '' 3''])
            ''a cube'' [(''hi'', ''hello'')] (Fin 0) 4096) ! 1 = ''v 1 2'' \<and>
   prefix (yielded (chat_llama3_8b length [128001, 128009]
            (\<lambda>kwargs. [Text ''v 1'', Text '' 2'', Text '' 3''])
            ''a cube'' [(''hi'', ''hello'')] (Fin 0) 4096) ! 0)
          (yielded (chat_llama3_8b length [128001, 128009]
            (\<lambda>kwargs. [Text ''v 1'', Text '' 2'', Text '' 3''])
            ''a cube'' [(''hi'', ''hello'')] (Fin 0) 4096) ! 2) \<and>
   last (yielded (chat_llama3_8b length [128001, 128009]
            (\<lambda>kwargs. [Text ''v 1'', Text '' 2'', Text '' 3''])
            ''a cube'' [(''hi'', ''hello'')] (Fin 0) 4096)) = ''v 1 2 3''"
proof -
  let ?g = "\<lambda>kwargs :: string \<rightharpoonup> nat kwarg. [Text ''v 1'', Text '' 2'', Text '' 3'']"
  let ?run = "chat_llama3_8b length [128001, 128009] ?g ''a cube'' [(''hi'', ''hello'')] (Fin 0) 4096"
  have h: "?g (thread_kwargs ?run) = map Text [''v 1'', '' 2'', '' 3'']" by simp
  note c = chat_yields_running_concatenation[of ?g length "[128001, 128009]" "''a cube''" "[(''hi'', ''hello'')]" "Fin 0" 4096
              "[''v 1'', '' 2'', '' 3'']", OF h]
  from c have e: "ended ?run = Returned" by (rule conjunct1)
  from c have "length (yielded ?run) = length [''v 1'', '' 2'', '' 3'']" by blast
  then have l: "length (yielded ?run) = 3" by simp
  from c have k: "\<forall>k < length [''v 1'', '' 2'', '' 3''].
              yielded ?run ! k = concat (take (Suc k) [''v 1'', '' 2'', '' 3''])" by blast
  from c have p: "\<forall>i j. i \<le> j \<and> j < length [''v 1'', '' 2'', '' 3''] \<longrightarrow>
              prefix (yielded ?run ! i) (yielded ?run ! j)" by blast
  from c have "[''v 1'', '' 2'', '' 3''] \<noteq> [] \<longrightarrow>
      last (yielded ?run) = concat [''v 1'', '' 2'', '' 3'']" by blast
  then have t: "last (yielded ?run) = ''v 1 2 3''" by simp
  from k[rule_format, of 1] have y1: "yielded ?run ! 1 = ''v 1 2''" by simp
  from p[rule_format, of 0 2] have pr: "prefix (yielded ?run ! 0) (yielded ?run ! 2)" by simp
  from e l y1 pr t show ?thesis by (intro conjI)
qed

text \<open>
  Claim C4. The conversation passed to the chat-template call is the history in order, each
  pair expanded to a user entry and an assistant entry, followed by one user entry with the
  new message; its length is \<open>2 * len(history) + 1\<close>, its roles alternate starting with
  \<open>user\<close>, and it ends with the user entry of the new message. The tensor the template
  returns for it is the \<open>input_ids\<close> of the generation.
\<close>

theorem chat_conversation_layout:
  "template_argument (chat_llama3_8b tpl terms generate message hist temperature max_new_tokens) =
     concat (map (\<lambda>(user, assistant). [entry ''user'' user, entry ''assistant'' assistant]) hist)
       @ [entry ''user'' message] \<and>
   thread_kwargs (chat_llama3_8b tpl terms generate message hist temperature max_new_tokens) ''input_ids'' =
     Some (Tensor (tpl (template_argument
        (chat_llama3_8b tpl terms generate message hist temperature max_new_tokens)))) \<and>
   length (template_argument (chat_llama3_8b tpl terms generate message hist temperature max_new_tokens))
     = 2 * length hist + 1 \<and>
   (\<forall>i < 2 * length hist + 1.
      (template_argument (chat_llama3_8b tpl terms generate message hist temperature max_new_tokens) ! i) ''role''
        = Some (if even i then ''user'' else ''assistant'')) \<and>
   last (template_argument (chat_llama3_8b tpl terms generate message hist temperature max_new_tokens))
     = entry ''user'' message"
proof -
  let ?run = "chat_llama3_8b tpl terms generate message hist temperature max_new_tokens"
  let ?c = "concat (map (\<lambda>(user, assistant). [entry ''user'' user, entry ''assistant'' assistant]) hist)
       @ [entry ''user'' message]"
  have a: "template_argument ?run = ?c" by (rule chat_fields(1))
  have k: "thread_kwargs ?run ''input_ids'' = Some (Tensor (tpl ?c))"
    unfolding chat_fields(2) by (simp add: generate_kwargs_def Let_def)
  have l: "length ?c = 2 * length hist + 1" by (simp add: length_pairs)
  have r: "\<forall>i < 2 * length hist + 1. (?c ! i) ''role'' = Some (if even i then ''user'' else ''assistant'')"
  proof (intro allI impI)
    fix i assume "i < 2 * length hist + 1"
    then have "i < length ?c" unfolding l .
    from roles_alternate[OF this]
    show "(?c ! i) ''role'' = Some (if even i then ''user'' else ''assistant'')" .
  qed
  have t: "last ?c = entry ''user'' message" by (rule last_snoc)
  show ?thesis unfolding a
  proof (intro conjI)
    show "?c = ?c" by (rule refl)
    show "thread_kwargs ?run ''input_ids'' = Some (Tensor (tpl ?c))" by (rule k)
    show "length ?c = 2 * length hist + 1" by (rule l)
    show "\<forall>i < 2 * length hist + 1. (?c ! i) ''role'' = Some (if even i then ''user'' else ''assistant'')"
      by (rule r)
    show "last ?c = entry ''user'' message" by (rule t)
  qed
qed

text \<open>A history of two exchanges.\<close>

theorem chat_conversation_layout_witness:
  "template_argument (chat_llama3_8b length [128001, 128009] (\<lambda>kwargs. [Text ''v 1''])
       ''a cube'' [(''hi'', ''hello''), (''more'', ''sure'')] (Fin 0) 4096) =
     [entry ''user'' ''hi'', entry ''assistant'' ''hello'',
      entry ''user'' ''more'', entry ''assistant'' ''sure'', entry ''user'' ''a cube''] \<and>
   thread_kwargs (chat_llama3_8b length [128001, 128009] (\<lambda>kwargs. [Text ''v 1''])
       ''a cube'' [(''hi'', ''hello''), (''more'', ''sure'')] (Fin 0) 4096) ''input_ids'' =
     Some (Tensor 5) \<and>
   (template_argument (chat_llama3_8b length [128001, 128009] (\<lambda>kwargs. [Text ''v 1''])
       ''a cube'' [(''hi'', ''hello''), (''more'', ''sure'')] (Fin 0) 4096) ! 3) ''role'' =
     Some ''assistant'' \<and>
   (template_argument (chat_llama3_8b length [128001, 128009] (\<lambda>kwargs. [Text ''v 1''])
       ''a cube'' [(''hi'', ''hello''), (''more'', ''sure'')] (Fin 0) 4096) ! 4) ''role'' =
     Some ''user''"
proof -
  let ?g = "\<lambda>kwargs :: string \<rightharpoonup> nat kwarg. [Text ''v 1'']"
  let ?run = "chat_llama3_8b length [128001, 128009] ?g
       ''a cube'' [(''hi'', ''hello''), (''more'', ''sure'')] (Fin 0) 4096"
  note c = chat_conversation_layout[of length "[128001, 128009]" ?g "''a cube''"
               "[(''hi'', ''hello''), (''more'', ''sure'')]" "Fin 0" 4096]
  from c have a: "template_argument ?run =
     [entry ''user'' ''hi'', entry ''assistant'' ''hello'',
      entry ''user'' ''more'', entry ''assistant'' ''sure'', entry ''user'' ''a cube'']"
    by simp
  from c have "thread_kwargs ?run ''input_ids'' = Some (Tensor (length (template_argument ?run)))"
    by blast
  with c have b: "thread_kwargs ?run ''input_ids'' = Some (Tensor 5)" by simp
  from c have r: "\<forall>i < 2 * length [(''hi'', ''hello''), (''more'', ''sure'')] + 1.
      (template_argument ?run ! i) ''role'' = Some (if even i then ''user'' else ''assistant'')"
    by blast
  from r[rule_format, of 3] have r3: "(template_argument ?run ! 3) ''role'' = Some ''assistant''"
    by simp
  from r[rule_format, of 4] have r4: "(template_argument ?run ! 4) ''role'' = Some ''user''"
    by simp
  from a b r3 r4 show ?thesis by (intro conjI)
qed

text \<open>
  Claim C5. The history list is the same after the call as before it: the function reads
  it and appends to its own conversation list only.
\<close>

theorem chat_history_unchanged:
  "history (final_state (chat_llama3_8b tpl terms generate message hist temperature max_new_tokens)) = hist"
  by (rule chat_fields(3))

text \<open>The same history of two exchanges.\<close>

theorem chat_history_unchanged_witness:
  "history (final_state (chat_llama3_8b length [128001, 128009] (\<lambda>kwargs. [Text ''v 1''])
       ''a cube'' [(''hi'', ''hello''), (''more'', ''sure'')] (Fin 0) 4096)) =
     [(''hi'', ''hello''), (''more'', ''sure'')]"
  by (rule chat_history_unchanged)

text \<open>
  Claim C9. The keyword dictionary handed to \<open>model.generate\<close> has \<open>do_sample = False\<close>
  exactly when the temperature is 0 and \<open>do_sample = True\<close> otherwise; the temperature itself
  is passed on as given.
\<close>

theorem chat_do_sample_iff_temperature:
  "(thread_kwargs (chat_llama3_8b tpl terms generate message hist temperature max_new_tokens) ''do_sample''
      = Some (BoolValue False)) = (temperature = Fin 0) \<and>
   (thread_kwargs (chat_llama3_8b tpl terms generate message hist temperature max_new_tokens) ''do_sample''
      = Some (BoolValue True)) = (temperature \<noteq> Fin 0) \<and>
   thread_kwargs (chat_llama3_8b tpl terms generate message hist temperature max_new_tokens) ''temperature''
      = Some (FloatValue temperature)"
  unfolding chat_fields(2) by (auto simp: generate_kwargs_def Let_def feq_def)

text \<open>The temperatures 0 and 0.95.\<close>

theorem chat_do_sample_iff_temperature_witness:
  "thread_kwargs (chat_llama3_8b length [128001, 128009] (\<lambda>kwargs. [Text ''v 1''])
       ''a cube'' [] (Fin 0) 4096) ''do_sample'' = Some (BoolValue False) \<and>
   thread_kwargs (chat_llama3_8b length [128001, 128009] (\<lambda>kwargs. [Text ''v 1''])
       ''a cube'' [] (Fin (19 / 20)) 4096) ''do_sample'' = Some (BoolValue True) \<and>
   thread_kwargs (chat_llama3_8b length [128001, 128009] (\<lambda>kwargs. [Text ''v 1''])
       ''a cube'' [] (Fin (19 / 20)) 4096) ''temperature'' = Some (FloatValue (Fin (19 / 20)))"
  using chat_do_sample_iff_temperature[of length "[128001, 128009]" "\<lambda>kwargs. [Text ''v 1'']" "''a cube''" "[]" "Fin 0" 4096]
        chat_do_sample_iff_temperature[of length "[128001, 128009]" "\<lambda>kwargs. [Text ''v 1'']" "''a cube''" "[]" "Fin (19 / 20)" 4096]
  by simp

end
